theory Spec2Isabelle
  imports Complex_Main
begin

section \<open>JavaScript numbers\<close>

text \<open>
  The comparison service computes with JavaScript numbers. A number is \<open>NaN\<close>, one of the
  two infinities, or a finite value. Every arithmetic operation on finite values rounds its
  exact result; the rounding function is a parameter \<open>R\<close> of the operations, so that what
  is proved holds for every rounding, the one of IEEE 754 binary64 included (it may overflow
  to an infinity). The negative zero of IEEE 754 is left out: a zero is the positive zero,
  as every zero read from JSON is unless it is written with a minus sign.
\<close>

datatype number = NaN | NegInf | Fin real | PosInf

type_synonym rounding = "real \<Rightarrow> number"

definition exact :: rounding where
  "exact = Fin"

fun signum :: "number \<Rightarrow> int" where
  "signum NaN = 0"
| "signum NegInf = - 1"
| "signum (Fin a) = (if a < 0 then - 1 else if a = 0 then 0 else 1)"
| "signum PosInf = 1"

definition infinity :: "int \<Rightarrow> number" where
  "infinity s = (if s < 0 then NegInf else if s = 0 then NaN else PosInf)"

text \<open>\<open>x * y\<close>: an infinity times zero is \<open>NaN\<close>.\<close>

fun js_mul :: "rounding \<Rightarrow> number \<Rightarrow> number \<Rightarrow> number" where
  "js_mul R NaN y = NaN"
| "js_mul R x NaN = NaN"
| "js_mul R (Fin a) (Fin b) = R (a * b)"
| "js_mul R x y = infinity (signum x * signum y)"

text \<open>\<open>x / y\<close>: never raises; a finite nonzero value over zero is an infinity, \<open>0 / 0\<close> is \<open>NaN\<close>.\<close>

fun js_div :: "rounding \<Rightarrow> number \<Rightarrow> number \<Rightarrow> number" where
  "js_div R NaN y = NaN"
| "js_div R x NaN = NaN"
| "js_div R (Fin a) (Fin b) = (if b = 0 then infinity (signum (Fin a)) else R (a / b))"
| "js_div R (Fin a) y = Fin 0"
| "js_div R x (Fin b) = infinity (signum x * (if b < 0 then - 1 else 1))"
| "js_div R x y = NaN"

fun js_add :: "rounding \<Rightarrow> number \<Rightarrow> number \<Rightarrow> number" where
  "js_add R NaN y = NaN"
| "js_add R x NaN = NaN"
| "js_add R (Fin a) (Fin b) = R (a + b)"
| "js_add R (Fin a) y = y"
| "js_add R x (Fin b) = x"
| "js_add R x y = (if x = y then x else NaN)"

fun js_sub :: "rounding \<Rightarrow> number \<Rightarrow> number \<Rightarrow> number" where
  "js_sub R NaN y = NaN"
| "js_sub R x NaN = NaN"
| "js_sub R (Fin a) (Fin b) = R (a - b)"
| "js_sub R (Fin a) y = infinity (- signum y)"
| "js_sub R x (Fin b) = x"
| "js_sub R x y = (if x = y then NaN else x)"

text \<open>The comparisons \<open><\<close> and \<open><=\<close> of JavaScript: false as soon as an operand is \<open>NaN\<close>.\<close>

fun js_less :: "number \<Rightarrow> number \<Rightarrow> bool" where
  "js_less NaN y = False"
| "js_less x NaN = False"
| "js_less x NegInf = False"
| "js_less NegInf y = True"
| "js_less PosInf y = False"
| "js_less x PosInf = True"
| "js_less (Fin a) (Fin b) = (a < b)"

fun js_le :: "number \<Rightarrow> number \<Rightarrow> bool" where
  "js_le NaN y = False"
| "js_le x NaN = False"
| "js_le x y = (x = y \<or> js_less x y)"

text \<open>\<open>Math.max\<close> and \<open>Math.min\<close> of two arguments: \<open>NaN\<close> if either is.\<close>

definition Math_max :: "number \<Rightarrow> number \<Rightarrow> number" where
  "Math_max x y = (if x = NaN \<or> y = NaN then NaN else if js_less x y then y else x)"

definition Math_min :: "number \<Rightarrow> number \<Rightarrow> number" where
  "Math_min x y = (if x = NaN \<or> y = NaN then NaN else if js_less y x then y else x)"

definition num :: "nat \<Rightarrow> number" where
  "num n = Fin (real n)"

text \<open>The decimal string of a natural number, as a template literal prints an index or a length.\<close>

definition digit :: "nat \<Rightarrow> char" where
  "digit d = ''0123456789'' ! d"

fun decimal :: "nat \<Rightarrow> string" where
  "decimal n = (if n < 10 then [digit n] else decimal (n div 10) @ [digit (n mod 10)])"

declare decimal.simps [simp del]


section \<open>Data model\<close>

text \<open>
  The payloads of the inference service, at the types the code reads them. A coordinate or
  a dimension that is missing is \<open>NaN\<close> in the arithmetic below.
\<close>

record area =
  x1 :: number
  y1 :: number
  x2 :: number
  y2 :: number

record difference =
  dtype :: string
  location :: string
  description :: string
  coordinates :: "area option"
  highlight_area :: "area option"
  before :: "string option"
  after :: "string option"

text \<open>The object \<open>{ "differences": [...] }\<close>; its property may be absent.\<close>

record differences_payload =
  differences :: "difference list option"

text \<open>\<open>processedDims\<close>: the dimensions the service claims to have used for one image.\<close>

record dimensions =
  width :: number
  height :: number

text \<open>A decoded image: its true pixel dimensions and its raster.\<close>

record image =
  width :: nat
  height :: nat
  raster :: "nat list"

datatype js_error = Error string | TypeError string | SyntaxError string

section \<open>The canvas\<close>

text \<open>
  A 2D context is modelled by its drawing state and the calls drawn on it so far, each call
  recorded with the styles in force when it was made.
\<close>

datatype draw_call =
    DrawImage image number number number number
  | DrawCanvas nat nat "draw_call list" number number
  | FillRect string number number number number
  | StrokeRect string number number number number number
  | FillText string string string number number
  | StrokeText string string number string number number

record context2d =
  fillStyle :: string
  strokeStyle :: string
  font :: string
  lineWidth :: number
  calls :: "draw_call list"

record canvas =
  width :: nat
  height :: nat
  getContext :: context2d

definition createCanvas :: "nat \<Rightarrow> nat \<Rightarrow> canvas" where
  "createCanvas w h =
     \<lparr>canvas.width = w, canvas.height = h,
      getContext = \<lparr>fillStyle = ''#000000'', strokeStyle = ''#000000'',
                 font = ''10px sans-serif'', lineWidth = Fin 1, calls = []\<rparr>\<rparr>"

definition draw :: "draw_call \<Rightarrow> context2d \<Rightarrow> context2d" where
  "draw c ctx = ctx\<lparr>calls := calls ctx @ [c]\<rparr>"

text \<open>Assigning a style that is not a colour string (here: \<open>undefined\<close>) leaves the style as it was.\<close>

definition set_fillStyle :: "string option \<Rightarrow> context2d \<Rightarrow> context2d" where
  "set_fillStyle v ctx = (case v of None \<Rightarrow> ctx | Some s \<Rightarrow> ctx\<lparr>fillStyle := s\<rparr>)"

definition set_strokeStyle :: "string option \<Rightarrow> context2d \<Rightarrow> context2d" where
  "set_strokeStyle v ctx = (case v of None \<Rightarrow> ctx | Some s \<Rightarrow> ctx\<lparr>strokeStyle := s\<rparr>)"

definition drawImage :: "image \<Rightarrow> number \<Rightarrow> number \<Rightarrow> number \<Rightarrow> number \<Rightarrow> context2d \<Rightarrow> context2d" where
  "drawImage img dx dy dw dh ctx = draw (DrawImage img dx dy dw dh) ctx"

definition drawCanvas :: "canvas \<Rightarrow> number \<Rightarrow> number \<Rightarrow> context2d \<Rightarrow> context2d" where
  "drawCanvas src dx dy ctx =
     draw (DrawCanvas (canvas.width src) (canvas.height src) (calls (getContext src)) dx dy) ctx"

definition fillRect :: "number \<Rightarrow> number \<Rightarrow> number \<Rightarrow> number \<Rightarrow> context2d \<Rightarrow> context2d" where
  "fillRect x y w h ctx = draw (FillRect (fillStyle ctx) x y w h) ctx"

definition strokeRect :: "number \<Rightarrow> number \<Rightarrow> number \<Rightarrow> number \<Rightarrow> context2d \<Rightarrow> context2d" where
  "strokeRect x y w h ctx = draw (StrokeRect (strokeStyle ctx) (lineWidth ctx) x y w h) ctx"

definition fillText :: "string \<Rightarrow> number \<Rightarrow> number \<Rightarrow> context2d \<Rightarrow> context2d" where
  "fillText t x y ctx = draw (FillText (font ctx) (fillStyle ctx) t x y) ctx"

definition strokeText :: "string \<Rightarrow> number \<Rightarrow> number \<Rightarrow> context2d \<Rightarrow> context2d" where
  "strokeText t x y ctx = draw (StrokeText (font ctx) (strokeStyle ctx) (lineWidth ctx) t x y) ctx"

section \<open>Highlighting the differences\<close>

text \<open>
  The table \<open>colorSchemes\<close> is an object literal: a lookup finds its own six keys, and also
  the properties every object inherits, which carry neither \<open>stroke\<close> nor \<open>fill\<close>.
\<close>

definition colorSchemes :: "(string \<times> string \<times> string) list" where
  "colorSchemes =
    [(''text_change'', ''rgba(255, 0, 0, 0.8)'', ''rgba(255, 0, 0, 0.3)''),
     (''layout_change'', ''rgba(0, 0, 255, 0.8)'', ''rgba(0, 0, 255, 0.3)''),
     (''element_added'', ''rgba(0, 128, 0, 0.8)'', ''rgba(0, 128, 0, 0.3)''),
     (''element_removed'', ''rgba(255, 165, 0, 0.8)'', ''rgba(255, 165, 0, 0.3)''),
     (''style_change'', ''rgba(128, 0, 128, 0.8)'', ''rgba(128, 0, 128, 0.3)''),
     (''default'', ''rgba(255, 0, 0, 0.8)'', ''rgba(255, 0, 0, 0.3)'')]"

definition inherited_keys :: "string list" where
  "inherited_keys =
    [''constructor'', ''__proto__'', ''hasOwnProperty'', ''isPrototypeOf'',
     ''propertyIsEnumerable'', ''toLocaleString'', ''toString'', ''valueOf'',
     ''__defineGetter__'', ''__defineSetter__'', ''__lookupGetter__'', ''__lookupSetter__'']"

text \<open>\<open>colorSchemes[diff.type] || colorSchemes.default\<close>, as the pair of its \<open>stroke\<close> and \<open>fill\<close>.\<close>

definition colorScheme :: "string \<Rightarrow> string option \<times> string option" where
  "colorScheme t =
     (case map_of colorSchemes t of
        Some (s, f) \<Rightarrow> (Some s, Some f)
      | None \<Rightarrow>
          if t \<in> set inherited_keys then (None, None)
          else (case map_of colorSchemes ''default'' of
                  Some (s, f) \<Rightarrow> (Some s, Some f)
                | None \<Rightarrow> (None, None)))"

text \<open>The scale factors (lines 222 and 223 of the service).\<close>

definition scaleX :: "rounding \<Rightarrow> image \<Rightarrow> dimensions \<Rightarrow> number" where
  "scaleX R img processedDims = js_div R (num (image.width img)) (dimensions.width processedDims)"

definition scaleY :: "rounding \<Rightarrow> image \<Rightarrow> dimensions \<Rightarrow> number" where
  "scaleY R img processedDims = js_div R (num (image.height img)) (dimensions.height processedDims)"

text \<open>The scaled bounding box \<open>(scaledX1, scaledY1, scaledX2, scaledY2)\<close> (lines 263 to 266).\<close>

definition scaledBox :: "rounding \<Rightarrow> image \<Rightarrow> number \<Rightarrow> number \<Rightarrow> area \<Rightarrow> area" where
  "scaledBox R img sx sy a =
     \<lparr>x1 = Math_max (Fin 0) (js_mul R (x1 a) sx),
      y1 = Math_max (Fin 0) (js_mul R (y1 a) sy),
      x2 = Math_min (num (image.width img)) (js_mul R (x2 a) sx),
      y2 = Math_min (num (image.height img)) (js_mul R (y2 a) sy)\<rparr>"

text \<open>The body of the \<open>forEach\<close> callback for one difference and its index.\<close>

definition highlight :: "rounding \<Rightarrow> image \<Rightarrow> number \<Rightarrow> number \<Rightarrow> difference \<Rightarrow> nat \<Rightarrow> context2d \<Rightarrow> context2d" where
  "highlight R img sx sy diff index ctx =
     (case highlight_area diff of
        None \<Rightarrow> ctx
      | Some a \<Rightarrow>
          let b = scaledBox R img sx sy a;
              w = js_sub R (x2 b) (x1 b);
              h = js_sub R (y2 b) (y1 b);
              (stroke, fill) = colorScheme (dtype diff);
              ctx = set_strokeStyle stroke ctx;
              ctx = set_fillStyle fill ctx;
              ctx = strokeRect (x1 b) (y1 b) w h ctx;
              ctx = fillRect (x1 b) (y1 b) w h ctx;
              ctx = set_fillStyle (Some ''white'') ctx;
              ctx = set_strokeStyle (Some ''black'') ctx;
              ctx = strokeText (decimal (index + 1)) (js_add R (x1 b) (Fin 5)) (js_add R (y1 b) (Fin 15)) ctx;
              ctx = fillText (decimal (index + 1)) (js_add R (x1 b) (Fin 5)) (js_add R (y1 b) (Fin 15)) ctx
          in ctx)"

text \<open>\<open>Array.prototype.forEach\<close>: the callback on each element with its index, in order.\<close>

fun forEach :: "('a \<Rightarrow> nat \<Rightarrow> 's \<Rightarrow> 's) \<Rightarrow> 'a list \<Rightarrow> nat \<Rightarrow> 's \<Rightarrow> 's" where
  "forEach f [] i s = s"
| "forEach f (d # ds) i s = forEach f ds (Suc i) (f d i s)"

definition legendHeight :: nat where
  "legendHeight = 40"

definition legendSpacing :: nat where
  "legendSpacing = 20"

text \<open>
  Lines 214 to 287: the canvas with the image, the legend and the highlighted differences.
  The sums of an image dimension and a small constant are sums of integers, which are exact.
\<close>

definition highlightedCanvas :: "rounding \<Rightarrow> image \<Rightarrow> dimensions \<Rightarrow> difference list \<Rightarrow> canvas" where
  "highlightedCanvas R img processedDims ds =
     (let W = image.width img; H = image.height img;
          canvas0 = createCanvas W H;
          canvas0 = canvas0\<lparr>getContext := drawImage img (Fin 0) (Fin 0) (num W) (num H) (getContext canvas0)\<rparr>;
          sx = scaleX R img processedDims;
          sy = scaleY R img processedDims;
          expandedCanvas = createCanvas W (H + legendHeight);
          ctx = getContext expandedCanvas;
          ctx = drawCanvas canvas0 (Fin 0) (Fin 0) ctx;
          ctx = set_fillStyle (Some ''rgba(255, 255, 255, 0.9)'') ctx;
          ctx = fillRect (Fin 0) (num H) (num W) (num legendHeight) ctx;
          ctx = set_fillStyle (Some ''black'') ctx;
          ctx = ctx\<lparr>font := ''14px Arial''\<rparr>;
          ctx = fillText (decimal (length ds) @ '' UI differences detected'') (num legendSpacing) (num (H + 25)) ctx;
          ctx = ctx\<lparr>font := ''bold 12px Arial''\<rparr>;
          ctx = ctx\<lparr>lineWidth := Fin 3\<rparr>;
          ctx = forEach (highlight R img sx sy) ds 0 ctx
      in expandedCanvas\<lparr>getContext := ctx\<rparr>)"


section \<open>The environment\<close>

text \<open>
  What the service reads from and writes to: the file system, the image decoder, the clock
  and the inference service. A library call that can throw returns the error as a value.
  Strings are lists of 8-bit characters. Console output is not modelled.
\<close>

record world =
  access :: "string \<Rightarrow> bool"
  readFile :: "string \<Rightarrow> js_error + string"
  inference :: "string \<Rightarrow> string \<Rightarrow> js_error + string"
  loadImage :: "string \<Rightarrow> js_error + image"
  cwd :: string
  clock :: "nat \<Rightarrow> string"
  ticks :: nat
  directories :: "string list"
  mkdirSync :: "string \<Rightarrow> js_error option"
  writeFile :: "string \<Rightarrow> js_error option"
  files :: "(string \<times> canvas) list"

text \<open>\<open>new Date().toISOString()\<close>: reads the clock, which then has moved on.\<close>

definition toISOString :: "world \<Rightarrow> string \<times> world" where
  "toISOString w = (clock w (ticks w), w\<lparr>ticks := Suc (ticks w)\<rparr>)"

text \<open>The functions of \<open>path\<close> on POSIX paths without a trailing slash.\<close>

definition path_join :: "string \<Rightarrow> string \<Rightarrow> string" where
  "path_join a b = a @ ''/'' @ b"

definition basename :: "string \<Rightarrow> string" where
  "basename p = rev (takeWhile (\<lambda>c. c \<noteq> CHR ''/'') (rev p))"

definition extname :: "string \<Rightarrow> string" where
  "extname p =
     (let b = basename p;
          e = rev (takeWhile (\<lambda>c. c \<noteq> CHR ''.'') (rev b))
      in if length e = length b \<or> length e + 1 = length b \<or> b = ''..'' then [] else CHR ''.'' # e)"

definition basename_ext :: "string \<Rightarrow> string \<Rightarrow> string" where
  "basename_ext p ext =
     (let b = basename p
      in if ext \<noteq> b \<and> length ext \<le> length b \<and> drop (length b - length ext) b = ext
         then take (length b - length ext) b else b)"

text \<open>\<open>ensureOutputDir\<close> of the utilities: creates \<open>output\<close> under the working directory if it is missing.\<close>

definition ensureOutputDir :: "world \<Rightarrow> (js_error + string) \<times> world" where
  "ensureOutputDir w =
     (let outputDir = path_join (cwd w) ''output''
      in if outputDir \<in> set (directories w) then (Inr outputDir, w)
         else (case mkdirSync w outputDir of
                 Some e \<Rightarrow> (Inl e, w)
               | None \<Rightarrow> (Inr outputDir, w\<lparr>directories := outputDir # directories w\<rparr>)))"

text \<open>Lines 289 to 300: the canvas is written under a name made of the image's name and the time.\<close>

definition saveHighlighted :: "world \<Rightarrow> string \<Rightarrow> canvas \<Rightarrow> (js_error + string) \<times> world" where
  "saveHighlighted w imagePath expandedCanvas =
     (case ensureOutputDir w of
        (Inl e, w1) \<Rightarrow> (Inl e, w1)
      | (Inr outputDir, w1) \<Rightarrow>
          let (iso, w2) = toISOString w1;
              timestamp = map (\<lambda>c. if c = CHR '':'' \<or> c = CHR ''.'' then CHR ''-'' else c) iso;
              baseFilename = basename_ext imagePath (extname imagePath);
              outputFilename = ''diff_'' @ baseFilename @ ''_'' @ timestamp @ ''.png'';
              outputPath = path_join outputDir outputFilename
          in (case writeFile w2 outputPath of
                Some e \<Rightarrow> (Inl e, w2)
              | None \<Rightarrow> (Inr outputPath, w2\<lparr>files := (outputPath, expandedCanvas) # files w2\<rparr>)))"

text \<open>The body of the \<open>try\<close> block of \<open>createHighlightedImage\<close> (lines 211 to 300).\<close>

definition tryHighlight ::
  "rounding \<Rightarrow> world \<Rightarrow> string \<Rightarrow> difference list \<Rightarrow> dimensions option \<Rightarrow> (js_error + string) \<times> world" where
  "tryHighlight R w imagePath ds processedDims =
     (case loadImage w imagePath of
        Inl e \<Rightarrow> (Inl e, w)
      | Inr img \<Rightarrow>
          (case processedDims of
             None \<Rightarrow> (Inl (TypeError ''Cannot read properties of undefined''), w)
           | Some dims \<Rightarrow> saveHighlighted w imagePath (highlightedCanvas R img dims ds)))"

text \<open>
  \<open>createHighlightedImage\<close>: \<open>None\<close> is the \<open>null\<close> it returns, both when there is nothing to
  highlight and when the \<open>try\<close> block threw.
\<close>

definition createHighlightedImage ::
  "rounding \<Rightarrow> world \<Rightarrow> string \<Rightarrow> differences_payload option \<Rightarrow> dimensions option \<Rightarrow> string option \<times> world" where
  "createHighlightedImage R w imagePath diffObj processedDims =
     (case diffObj of
        None \<Rightarrow> (None, w)
      | Some d \<Rightarrow>
          (case differences_payload.differences d of
             None \<Rightarrow> (None, w)
           | Some ds \<Rightarrow>
               if length ds = 0 then (None, w)
               else (case tryHighlight R w imagePath ds processedDims of
                       (Inl e, w') \<Rightarrow> (None, w')
                     | (Inr outputPath, w') \<Rightarrow> (Some outputPath, w'))))"

section \<open>Extracting the JSON blocks\<close>

text \<open>
  The regular expression of \<open>extractJsonObject\<close>, with the flag \<open>i\<close>: the opening fence
  and the language tag, a newline, then the captured group: a brace, white space, the quoted
  object name, as few characters as possible, and a brace; then a newline and the closing
  fence. The object name is matched as a literal, which it is for a name of letters, digits
  and underscores.
\<close>

text \<open>
  With the flag \<open>i\<close> two characters match when they are equal after \<open>canonicalize\<close>, which
  maps a lower case letter of ASCII to its upper case and, for a pattern of ASCII
  characters, can be taken to leave every other character alone.
\<close>

definition canonicalize :: "char \<Rightarrow> char" where
  "canonicalize c =
     (case map_of (zip ''abcdefghijklmnopqrstuvwxyz'' ''ABCDEFGHIJKLMNOPQRSTUVWXYZ'') c of
        Some u \<Rightarrow> u
      | None \<Rightarrow> c)"

text \<open>The class \<open>\s\<close> among the 8-bit characters: tab to carriage return, space, no-break space.\<close>

definition is_space :: "char \<Rightarrow> bool" where
  "is_space c = (c \<in> set [CHR 0x09, CHR 0x0A, CHR 0x0B, CHR 0x0C, CHR 0x0D, CHR 0x20, CHR 0xA0])"

text \<open>A literal of the pattern at the start of the text: the text it matched and the rest.\<close>

fun literal :: "string \<Rightarrow> string \<Rightarrow> (string \<times> string) option" where
  "literal [] s = Some ([], s)"
| "literal (p # ps) [] = None"
| "literal (p # ps) (c # cs) =
     (if canonicalize p = canonicalize c
      then (case literal ps cs of None \<Rightarrow> None | Some (m, r) \<Rightarrow> Some (c # m, r))
      else None)"

text \<open>The lazy \<open>[\s\S]*?\<close> before a literal: the shortest text after which the literal matches.\<close>

fun lazy_until :: "string \<Rightarrow> string \<Rightarrow> (string \<times> string) option" where
  "lazy_until lit [] = (case literal lit [] of None \<Rightarrow> None | Some (m, r) \<Rightarrow> Some ([], r))"
| "lazy_until lit (c # cs) =
     (case literal lit (c # cs) of
        Some (m, r) \<Rightarrow> Some ([], r)
      | None \<Rightarrow> (case lazy_until lit cs of None \<Rightarrow> None | Some (m, r) \<Rightarrow> Some (c # m, r)))"

text \<open>
  The opening of the expression at the start of the text: the fence, the brace, white space
  and the quoted name. It gives the part of the group matched so far and the rest.
\<close>

definition block_opening :: "string \<Rightarrow> string \<Rightarrow> (string \<times> string) option" where
  \<open>block_opening objectName s =
     (case literal ''```json\<newline>'' s of
        None \<Rightarrow> None
      | Some (fence, r0) \<Rightarrow>
          (case literal ''{'' r0 of
             None \<Rightarrow> None
           | Some (brace, r1) \<Rightarrow>
               (case literal (''"'' @ objectName @ ''"'') (dropWhile is_space r1) of
                  None \<Rightarrow> None
                | Some (key, r3) \<Rightarrow> Some (brace @ takeWhile is_space r1 @ key, r3))))\<close>

text \<open>The match of the whole expression at the start of the text: its captured group.\<close>

definition match_here :: "string \<Rightarrow> string \<Rightarrow> string option" where
  "match_here objectName s =
     (case block_opening objectName s of
        None \<Rightarrow> None
      | Some (g, r3) \<Rightarrow>
          (case lazy_until ''}\<newline>```'' r3 of
             None \<Rightarrow> None
           | Some (body, rest) \<Rightarrow> Some (g @ body @ ''}'')))"

text \<open>\<open>String.prototype.match\<close>: the match at the leftmost position that has one.\<close>

fun regex_match :: "string \<Rightarrow> string \<Rightarrow> string option" where
  "regex_match objectName [] = match_here objectName []"
| "regex_match objectName (c # cs) =
     (case match_here objectName (c # cs) of
        Some g \<Rightarrow> Some g
      | None \<Rightarrow> regex_match objectName cs)"

text \<open>
  \<open>extractJsonObject\<close>. \<open>JSON.parse\<close> is the parameter \<open>JSON_parse\<close>, at the type the
  caller reads the value; it throws a \<open>SyntaxError\<close> on a text that is not JSON. The \<open>catch\<close>
  logs and throws the error again.
\<close>

definition extractJsonObject :: "(string \<Rightarrow> js_error + 'v) \<Rightarrow> string \<Rightarrow> string \<Rightarrow> js_error + 'v" where
  "extractJsonObject JSON_parse jsonString objectName =
     (case regex_match objectName jsonString of
        None \<Rightarrow> Inl (Error (''Could not find '' @ objectName @ '' JSON block in the response''))
      | Some g \<Rightarrow> JSON_parse g)"

section \<open>Comparing two images\<close>

record processed_dimensions =
  image1 :: "dimensions option"
  image2 :: "dimensions option"

record dimensions_payload =
  processed_dimensions :: "processed_dimensions option"

record comparison =
  processedDimensions :: dimensions_payload
  differences :: differences_payload
  analysis :: string
  highlightedImagePath :: "string option"
  timestamp :: string

text \<open>
  \<open>compareImages\<close>, an error thrown in it being thrown again by its \<open>catch\<close>. The two
  parsers are \<open>JSON.parse\<close> at the types of the two payloads. The code checks the access
  to the two images at once; where both checks fail, the model names the first image.
\<close>

definition compareImages ::
  "rounding \<Rightarrow> (string \<Rightarrow> js_error + dimensions_payload) \<Rightarrow> (string \<Rightarrow> js_error + differences_payload) \<Rightarrow>
   world \<Rightarrow> string \<Rightarrow> string \<Rightarrow> (js_error + comparison) \<times> world" where
  "compareImages R parse_dimensions parse_differences w image1Path image2Path =
     (if \<not> access w image1Path then (Inl (Error (''Cannot access image: '' @ image1Path)), w)
      else if \<not> access w image2Path then (Inl (Error (''Cannot access image: '' @ image2Path)), w)
      else (case readFile w image1Path of
        Inl e \<Rightarrow> (Inl e, w)
      | Inr image1Buffer \<Rightarrow>
      (case readFile w image2Path of
        Inl e \<Rightarrow> (Inl e, w)
      | Inr image2Buffer \<Rightarrow>
      (case inference w image1Buffer image2Buffer of
        Inl e \<Rightarrow> (Inl e, w)
      | Inr content \<Rightarrow>
      (case extractJsonObject parse_dimensions content ''processed_dimensions'' of
        Inl e \<Rightarrow> (Inl e, w)
      | Inr processedDims \<Rightarrow>
      (case extractJsonObject parse_differences content ''differences'' of
        Inl e \<Rightarrow> (Inl e, w)
      | Inr diffObj \<Rightarrow>
      (case differences_payload.differences diffObj of
        None \<Rightarrow> (Inl (TypeError ''Cannot read properties of undefined (reading length)''), w)
      | Some ds \<Rightarrow>
      (case processed_dimensions processedDims of
        None \<Rightarrow> (Inl (TypeError ''Cannot read properties of undefined (reading image2)''), w)
      | Some pd \<Rightarrow>
          let (outputPath, w1) = createHighlightedImage R w image2Path (Some diffObj) (image2 pd);
              (iso, w2) = toISOString w1
          in (Inr \<lparr>processedDimensions = processedDims,
                   comparison.differences = diffObj,
                   analysis = content,
                   highlightedImagePath = outputPath,
                   timestamp = iso\<rparr>, w2)))))))))"


section \<open>Observations\<close>

text \<open>What was drawn on a canvas, in the order of drawing and without the styles.\<close>

fun strokedRects :: "draw_call list \<Rightarrow> (number \<times> number \<times> number \<times> number) list" where
  "strokedRects [] = []"
| "strokedRects (StrokeRect s lw x y w h # cs) = (x, y, w, h) # strokedRects cs"
| "strokedRects (c # cs) = strokedRects cs"


text \<open>The rectangle and the label drawn for a scaled box, and the four calls that draw them.\<close>

definition rectOf :: "rounding \<Rightarrow> area \<Rightarrow> number \<times> number \<times> number \<times> number" where
  "rectOf R b = (x1 b, y1 b, js_sub R (x2 b) (x1 b), js_sub R (y2 b) (y1 b))"


definition boxCalls :: "rounding \<Rightarrow> area \<Rightarrow> nat \<Rightarrow> string \<Rightarrow> string \<Rightarrow> string \<Rightarrow> number \<Rightarrow> draw_call list" where
  "boxCalls R b index stroke fill fnt lw =
     [StrokeRect stroke lw (x1 b) (y1 b) (js_sub R (x2 b) (x1 b)) (js_sub R (y2 b) (y1 b)),
      FillRect fill (x1 b) (y1 b) (js_sub R (x2 b) (x1 b)) (js_sub R (y2 b) (y1 b)),
      StrokeText fnt ''black'' lw (decimal (index + 1)) (js_add R (x1 b) (Fin 5)) (js_add R (y1 b) (Fin 15)),
      FillText fnt ''white'' (decimal (index + 1)) (js_add R (x1 b) (Fin 5)) (js_add R (y1 b) (Fin 15))]"

text \<open>A number that the rounding leaves as it is, as every value read from JSON is.\<close>

definition representable :: "rounding \<Rightarrow> number \<Rightarrow> bool" where
  "representable R x = (case x of Fin v \<Rightarrow> R v = Fin v | _ \<Rightarrow> True)"

text \<open>A character that the flag \<open>i\<close> identifies with no other one.\<close>

definition caseless :: "char \<Rightarrow> bool" where
  "caseless c = (c \<notin> set (''abcdefghijklmnopqrstuvwxyz'' @ ''ABCDEFGHIJKLMNOPQRSTUVWXYZ''))"

text \<open>No line of the text begins with a backquote. A JSON text has no such line.\<close>

fun no_fence_line :: "string \<Rightarrow> bool" where
  "no_fence_line (a # b # cs) = (\<not> (a = CHR ''\<newline>'' \<and> b = CHR 0x60) \<and> no_fence_line (b # cs))"
| "no_fence_line cs = True"


section \<open>Sample inputs\<close>

text \<open>
  The scenario of the specification: an image of 800 by 600 pixels that the service claims
  to have processed at 400 by 300, and one text change.
\<close>

definition sample_image :: image where
  "sample_image = \<lparr>image.width = 800, image.height = 600, raster = []\<rparr>"

definition sample_dims :: dimensions where
  "sample_dims = \<lparr>dimensions.width = Fin 400, dimensions.height = Fin 300\<rparr>"

definition sample_area :: area where
  "sample_area = \<lparr>x1 = Fin 50, y1 = Fin 50, x2 = Fin 150, y2 = Fin 100\<rparr>"

definition sample_difference :: difference where
  "sample_difference =
     \<lparr>dtype = ''text_change'', location = ''header'', description = ''title'',
      coordinates = None, highlight_area = Some sample_area, before = None, after = None\<rparr>"

text \<open>A difference without a \<open>highlight_area\<close>.\<close>

definition plain_difference :: difference where
  "plain_difference =
     \<lparr>dtype = ''layout_change'', location = ''footer'', description = ''moved'',
      coordinates = None, highlight_area = None, before = None, after = None\<rparr>"

text \<open>A box to the right of the claimed frame, and a box that starts left of it.\<close>

definition outside_area :: area where
  "outside_area = \<lparr>x1 = Fin 450, y1 = Fin 50, x2 = Fin 500, y2 = Fin 100\<rparr>"

definition overhanging_area :: area where
  "overhanging_area = \<lparr>x1 = Fin (- 10), y1 = Fin 50, x2 = Fin 150, y2 = Fin 100\<rparr>"

text \<open>A box that goes beyond the true frame on all four sides.\<close>

definition exceeding_area :: area where
  "exceeding_area = \<lparr>x1 = Fin (- 10), y1 = Fin (- 5), x2 = Fin 900, y2 = Fin 700\<rparr>"

definition true_dims :: dimensions where
  "true_dims = \<lparr>dimensions.width = Fin 800, dimensions.height = Fin 600\<rparr>"

definition zero_dims :: dimensions where
  "zero_dims = \<lparr>dimensions.width = Fin 0, dimensions.height = Fin 0\<rparr>"

text \<open>Responses of the service: with no difference, with one, and without the second block.\<close>

definition dimensions_text :: string where
  \<open>dimensions_text = ''{"processed_dimensions": {"image2": {"width": 400, "height": 300}}}''\<close>

definition no_differences_text :: string where
  \<open>no_differences_text = ''{"differences": []}''\<close>

definition one_difference_text :: string where
  \<open>one_difference_text = ''{"differences": [{"type": "text_change", "highlight_area": {"x1": 50, "y1": 50, "x2": 150, "y2": 100}}]}''\<close>

definition response_none :: string where
  \<open>response_none = ''Sizes:\<newline>```json\<newline>'' @ dimensions_text @ ''\<newline>```\<newline>Same.\<newline>```json\<newline>'' @ no_differences_text @ ''\<newline>```''\<close>

definition response_one :: string where
  \<open>response_one = ''Sizes:\<newline>```json\<newline>'' @ dimensions_text @ ''\<newline>```\<newline>One.\<newline>```json\<newline>'' @ one_difference_text @ ''\<newline>```''\<close>

definition response_missing :: string where
  \<open>response_missing = ''Sizes:\<newline>```json\<newline>'' @ dimensions_text @ ''\<newline>```\<newline>The title changed.''\<close>

text \<open>A response in which the prose opens a block for the differences and does not close it.\<close>

definition response_unclosed :: string where
  \<open>response_unclosed = ''```json\<newline>{"differences" comes next.\<newline>```json\<newline>'' @ no_differences_text @ ''\<newline>```''\<close>

text \<open>\<open>JSON.parse\<close> on the texts of the samples; any other text here is not JSON.\<close>

definition sample_parse_dimensions :: "string \<Rightarrow> js_error + dimensions_payload" where
  "sample_parse_dimensions s =
     (if s = dimensions_text
      then Inr \<lparr>processed_dimensions = Some \<lparr>image1 = None, image2 = Some sample_dims\<rparr>\<rparr>
      else Inl (SyntaxError ''Unexpected token''))"

definition sample_parse_differences :: "string \<Rightarrow> js_error + differences_payload" where
  "sample_parse_differences s =
     (if s = no_differences_text then Inr \<lparr>differences_payload.differences = Some []\<rparr>
      else if s = one_difference_text
      then Inr \<lparr>differences_payload.differences =
                  Some [sample_difference\<lparr>location := [], description := []\<rparr>]\<rparr>
      else Inl (SyntaxError ''Unexpected token''))"

definition sample_path :: string where
  "sample_path = ''uploads/b.png''"

definition sample_output :: string where
  "sample_output = ''/srv/output/diff_b_2025-03-01T10-20-30-456Z.png''"

definition payload :: "difference list \<Rightarrow> differences_payload" where
  "payload ds = \<lparr>differences_payload.differences = Some ds\<rparr>"

text \<open>A world in which everything succeeds, and one in which the image cannot be decoded.\<close>

definition sample_world :: "string \<Rightarrow> world" where
  "sample_world response =
     \<lparr>access = (\<lambda>p. True), readFile = (\<lambda>p. Inr ''PNG''),
      inference = (\<lambda>a b. Inr response), loadImage = (\<lambda>p. Inr sample_image),
      cwd = ''/srv'', clock = (\<lambda>n. ''2025-03-01T10:20:30.456Z''), ticks = 0,
      directories = [], mkdirSync = (\<lambda>p. None), writeFile = (\<lambda>p. None), files = []\<rparr>"



section \<open>Properties of the arithmetic\<close>

lemma Math_max_lower: "Math_max (Fin 0) x \<noteq> NaN \<Longrightarrow> js_le (Fin 0) (Math_max (Fin 0) x)"
  by (cases x) (simp_all add: Math_max_def)

lemma Math_min_upper: "Math_min (Fin u) x \<noteq> NaN \<Longrightarrow> js_le (Math_min (Fin u) x) (Fin u)"
  by (cases x) (simp_all add: Math_min_def)

lemma clamped_ordered:
  assumes "0 \<le> u"
  shows "js_le (Math_max (Fin 0) p) (Math_min (Fin u) q) \<longleftrightarrow> js_le p q \<and> js_le p (Fin u) \<and> js_le (Fin 0) q"
  using assms by (cases p; cases q) (auto simp add: Math_max_def Math_min_def)

lemma Math_max_id: "js_le (Fin 0) x \<Longrightarrow> Math_max (Fin 0) x = x"
  by (cases x) (auto simp add: Math_max_def)

lemma Math_min_id: "js_le x (Fin u) \<Longrightarrow> Math_min (Fin u) x = x"
  by (cases x) (auto simp add: Math_min_def)

lemma js_mul_one: "representable R x \<Longrightarrow> js_mul R x (Fin 1) = x"
  by (cases x) (simp_all add: representable_def infinity_def)

lemma js_div_self: "representable R (Fin 1) \<Longrightarrow> 0 < n \<Longrightarrow> js_div R (num n) (num n) = Fin 1"
  by (simp add: num_def representable_def)

lemma js_div_zero: "js_div R (num n) (Fin 0) = (if n = 0 then NaN else PosInf)"
  by (simp add: num_def infinity_def)

lemma clamped_within:
  assumes "0 \<le> u"
  shows "js_le p q \<and> js_le p (Fin u) \<and> js_le (Fin 0) q \<longrightarrow>
         js_le (Math_max (Fin 0) p) (Fin u) \<and> js_le (Fin 0) (Math_min (Fin u) q)"
  using assms by (cases p; cases q) (auto simp add: Math_max_def Math_min_def)

section \<open>Properties of the drawing\<close>

lemma strokedRects_append: "strokedRects (xs @ ys) = strokedRects xs @ strokedRects ys"
  by (induction xs rule: strokedRects.induct) simp_all


lemma highlight_None:
  "highlight_area d = None \<Longrightarrow> highlight R img sx sy d i ctx = ctx"
  by (simp add: highlight_def)

lemma highlight_Some:
  assumes "highlight_area d = Some a"
  shows "\<exists>stroke fill. highlight R img sx sy d i ctx =
           ctx\<lparr>fillStyle := ''white'', strokeStyle := ''black'',
               calls := calls ctx @ boxCalls R (scaledBox R img sx sy a) i stroke fill (font ctx) (lineWidth ctx)\<rparr>"
  using assms
  by (auto simp add: highlight_def boxCalls_def Let_def set_strokeStyle_def set_fillStyle_def
      strokeRect_def fillRect_def strokeText_def fillText_def draw_def
      split: option.splits prod.splits)

lemma highlight_strokedRects:
  "strokedRects (calls (highlight R img sx sy d i ctx)) =
     strokedRects (calls ctx) @
     (case highlight_area d of None \<Rightarrow> [] | Some a \<Rightarrow> [rectOf R (scaledBox R img sx sy a)])"
proof (cases "highlight_area d")
  case None
  then show ?thesis by (simp add: highlight_None)
next
  case (Some a)
  from highlight_Some [OF Some] obtain stroke fill where
    "highlight R img sx sy d i ctx =
       ctx\<lparr>fillStyle := ''white'', strokeStyle := ''black'',
           calls := calls ctx @ boxCalls R (scaledBox R img sx sy a) i stroke fill (font ctx) (lineWidth ctx)\<rparr>"
    by blast
  then show ?thesis
    by (simp add: Some strokedRects_append boxCalls_def rectOf_def)
qed


lemma forEach_strokedRects:
  "strokedRects (calls (forEach (highlight R img sx sy) ds i ctx)) =
     strokedRects (calls ctx) @
     concat (map (\<lambda>d. case highlight_area d of None \<Rightarrow> [] | Some a \<Rightarrow> [rectOf R (scaledBox R img sx sy a)]) ds)"
  by (induction ds arbitrary: i ctx) (simp_all add: highlight_strokedRects)


lemma highlightedCanvas_size:
  "canvas.width (highlightedCanvas R img dims ds) = image.width img"
  "canvas.height (highlightedCanvas R img dims ds) = image.height img + 40"
  by (simp_all add: highlightedCanvas_def Let_def createCanvas_def legendHeight_def)

lemma highlightedCanvas_calls:
  "calls (getContext (highlightedCanvas R img dims ds)) =
     calls (forEach (highlight R img (scaleX R img dims) (scaleY R img dims)) ds 0
       \<lparr>fillStyle = ''black'', strokeStyle = ''#000000'', font = ''bold 12px Arial'', lineWidth = Fin 3,
        calls = [DrawCanvas (image.width img) (image.height img)
                   [DrawImage img (Fin 0) (Fin 0) (num (image.width img)) (num (image.height img))] (Fin 0) (Fin 0),
                 FillRect ''rgba(255, 255, 255, 0.9)'' (Fin 0) (num (image.height img)) (num (image.width img)) (num 40),
                 FillText ''14px Arial'' ''black'' (decimal (length ds) @ '' UI differences detected'')
                   (num 20) (num (image.height img + 25))]\<rparr>)"
  by (simp add: highlightedCanvas_def Let_def createCanvas_def legendHeight_def legendSpacing_def
      drawCanvas_def drawImage_def fillRect_def fillText_def draw_def set_fillStyle_def)


lemma saveHighlighted_Inr:
  assumes "saveHighlighted w imagePath cv = (Inr out, w')"
  shows "files w' = (out, cv) # files w"
  using assms
  by (auto simp add: saveHighlighted_def ensureOutputDir_def toISOString_def Let_def
      split: prod.splits sum.splits option.splits if_splits)

lemma createHighlightedImage_Some:
  assumes "createHighlightedImage R w imagePath dobj pdims = (Some out, w')"
  shows "\<exists>d ds img dims. dobj = Some d \<and> differences_payload.differences d = Some ds \<and> ds \<noteq> [] \<and>
           loadImage w imagePath = Inr img \<and> pdims = Some dims \<and>
           files w' = (out, highlightedCanvas R img dims ds) # files w"
  using assms
  by (auto simp add: createHighlightedImage_def tryHighlight_def
      split: option.splits if_splits prod.splits sum.splits dest: saveHighlighted_Inr)

lemma createHighlightedImage_empty:
  "differences_payload.differences d = Some [] \<Longrightarrow> createHighlightedImage R w imagePath (Some d) pdims = (None, w)"
  by (simp add: createHighlightedImage_def)

lemma concat_map_option:
  "concat (map (\<lambda>d. case f d of None \<Rightarrow> [] | Some a \<Rightarrow> [g a]) ds) = map g (List.map_filter f ds)"
  by (induction ds) (simp_all add: map_filter_simps split: option.splits)

lemma forEach_appends:
  "\<exists>rest. calls (forEach (highlight R img sx sy) ds i ctx) = calls ctx @ rest"
proof (induction ds arbitrary: i ctx)
  case Nil
  then show ?case by simp
next
  case (Cons d ds)
  have "\<exists>r. calls (highlight R img sx sy d i ctx) = calls ctx @ r"
  proof (cases "highlight_area d")
    case None
    then show ?thesis by (simp add: highlight_None)
  next
    case (Some a)
    from highlight_Some [OF Some, of R img sx sy i ctx] show ?thesis by auto
  qed
  then obtain r where r: "calls (highlight R img sx sy d i ctx) = calls ctx @ r" by blast
  from Cons.IH [of "Suc i" "highlight R img sx sy d i ctx"] obtain rest where
    "calls (forEach (highlight R img sx sy) ds (Suc i) (highlight R img sx sy d i ctx)) =
       calls (highlight R img sx sy d i ctx) @ rest" by blast
  with r show ?case by simp
qed

section \<open>Properties of the matching\<close>

lemma canonicalize_caseless:
  assumes "caseless p"
  shows "canonicalize p = canonicalize c \<longleftrightarrow> p = c"
proof
  assume eq: "canonicalize p = canonicalize c"
  have p: "canonicalize p = p"
    using assms by (simp add: canonicalize_def caseless_def)
  show "p = c"
  proof (cases "map_of (zip ''abcdefghijklmnopqrstuvwxyz'' ''ABCDEFGHIJKLMNOPQRSTUVWXYZ'') c")
    case None
    then have "canonicalize c = c" by (simp add: canonicalize_def)
    with eq p show ?thesis by simp
  next
    case (Some u)
    then have "canonicalize c = u" by (simp add: canonicalize_def)
    moreover from Some have "u \<in> set ''ABCDEFGHIJKLMNOPQRSTUVWXYZ''"
      by (meson map_of_SomeD set_zip_rightD)
    ultimately have "p \<in> set ''ABCDEFGHIJKLMNOPQRSTUVWXYZ''" using eq p by simp
    with assms show ?thesis by (simp add: caseless_def)
  qed
qed simp

lemma literal_split:
  "literal ps s = Some (m, r) \<Longrightarrow> s = m @ r \<and> map canonicalize m = map canonicalize ps"
  by (induction ps s arbitrary: m r rule: literal.induct) (auto split: if_splits option.splits)

lemma literal_ci:
  "map canonicalize m = map canonicalize ps \<Longrightarrow> literal ps (m @ r) = Some (m, r)"
proof (induction ps arbitrary: m)
  case Nil
  then show ?case by simp
next
  case (Cons p ps)
  then obtain c cs where m: "m = c # cs" by (cases m) auto
  with Cons show ?case by simp
qed

lemma literal_exact:
  assumes "\<forall>p \<in> set ps. caseless p" and "literal ps s = Some (m, r)"
  shows "m = ps \<and> s = ps @ r"
proof -
  from literal_split [OF assms(2)] have s: "s = m @ r" and c: "map canonicalize m = map canonicalize ps" by simp_all
  from c assms(1) have "m = ps"
  proof (induction ps arbitrary: m)
    case Nil
    then show ?case by simp
  next
    case (Cons p ps)
    then obtain c cs where m: "m = c # cs" by (cases m) auto
    with Cons.prems have "canonicalize p = canonicalize c" and "map canonicalize cs = map canonicalize ps" by simp_all
    moreover from Cons.prems have "caseless p" by simp
    ultimately have "p = c" and "cs = ps" using Cons.IH Cons.prems(2) by (simp_all add: canonicalize_caseless)
    with m show ?case by simp
  qed
  with s show ?thesis by simp
qed




lemma caseless_closing: \<open>\<forall>p \<in> set ''}\<newline>```''. caseless p\<close>
  by (simp add: caseless_def)

lemma quote_not_space:
  assumes \<open>map canonicalize key = map canonicalize (''"'' @ objectName @ ''"'')\<close>
  shows "\<exists>ks. key = CHR 0x22 # ks \<and> \<not> is_space (CHR 0x22)"
proof -
  from assms obtain k ks where key: "key = k # ks" by (cases key) auto
  with assms have "canonicalize (CHR 0x22) = canonicalize k" by simp
  moreover have "caseless (CHR 0x22)" by (simp add: caseless_def)
  ultimately have "k = CHR 0x22" by (simp add: canonicalize_caseless)
  with key show ?thesis by (simp add: is_space_def)
qed

lemma block_opening_at:
  assumes fence: \<open>map canonicalize fence = map canonicalize ''```json\<newline>''\<close>
    and ws: "\<forall>c \<in> set ws. is_space c"
    and key: \<open>map canonicalize key = map canonicalize (''"'' @ objectName @ ''"'')\<close>
  shows "block_opening objectName (fence @ ''{'' @ ws @ key @ rest) = Some (''{'' @ ws @ key, rest)"
proof -
  from quote_not_space [OF key] obtain ks where ks: "key = CHR 0x22 # ks" and ns: "\<not> is_space (CHR 0x22)" by blast
  have 1: \<open>literal ''```json\<newline>'' (fence @ ''{'' @ ws @ key @ rest) = Some (fence, ''{'' @ ws @ key @ rest)\<close>
    using fence by (rule literal_ci)
  have 2: "literal ''{'' (''{'' @ ws @ key @ rest) = Some (''{'', ws @ key @ rest)"
    by (rule literal_ci) simp
  have 3: "dropWhile is_space (ws @ key @ rest) = key @ rest"
    using ws ns by (simp add: ks dropWhile_append3)
  have 4: "takeWhile is_space (ws @ key @ rest) = ws"
    using ws ns by (simp add: ks takeWhile_tail)
  have 5: \<open>literal (''"'' @ objectName @ ''"'') (key @ rest) = Some (key, rest)\<close>
    using key by (rule literal_ci)
  show ?thesis
    unfolding block_opening_def 1 2 3 4 5 option.case prod.case by simp
qed


lemma closing_in_body:
  assumes "no_fence_line (tail @ ''}'')"
  shows \<open>lazy_until ''}\<newline>```'' (tail @ ''}\<newline>```'' @ post) = Some (tail, post)\<close>
  using assms
proof (induction tail)
  case Nil
  have \<open>literal ''}\<newline>```'' (''}\<newline>```'' @ post) = Some (''}\<newline>```'', post)\<close>
    by (rule literal_ci) simp
  then show ?case by simp
next
  case (Cons c cs)
  have nf: "no_fence_line (cs @ ''}'')"
    using Cons.prems by (cases "cs @ ''}''") auto
  have \<open>literal ''}\<newline>```'' (c # cs @ ''}\<newline>```'' @ post) = None\<close>
  proof (rule ccontr)
    assume \<open>literal ''}\<newline>```'' (c # cs @ ''}\<newline>```'' @ post) \<noteq> None\<close>
    then obtain m r where \<open>literal ''}\<newline>```'' (c # cs @ ''}\<newline>```'' @ post) = Some (m, r)\<close> by auto
    from literal_exact [OF caseless_closing this]
    have eq: \<open>c # cs @ ''}\<newline>```'' @ post = ''}\<newline>```'' @ r\<close> by simp
    then obtain cs' where cs: "cs = CHR ''\<newline>'' # cs'" by (cases cs) auto
    with eq obtain cs'' where cs': "cs' = CHR 0x60 # cs''" by (cases cs') auto
    from Cons.prems cs cs' show False by simp
  qed
  with Cons.IH [OF nf] show ?case by simp
qed

lemma regex_match_here:
  "match_here objectName s = Some g \<Longrightarrow> regex_match objectName s = Some g"
  by (cases s) simp_all

lemma regex_match_skip:
  assumes "\<forall>i<length pre. match_here objectName (drop i (pre @ s)) = None"
  shows "regex_match objectName (pre @ s) = regex_match objectName s"
  using assms
proof (induction pre)
  case Nil
  then show ?case by simp
next
  case (Cons c cs)
  from Cons.prems have "match_here objectName (drop 0 ((c # cs) @ s)) = None" by blast
  then have h: "match_here objectName (c # cs @ s) = None" by simp
  have "\<forall>i<length cs. match_here objectName (drop i (cs @ s)) = None"
  proof (intro allI impI)
    fix i assume "i < length cs"
    then have "Suc i < length (c # cs)" by simp
    with Cons.prems have "match_here objectName (drop (Suc i) ((c # cs) @ s)) = None" by blast
    then show "match_here objectName (drop i (cs @ s)) = None" by simp
  qed
  with Cons.IH h show ?case by simp
qed





lemma no_fence_line_suffix: "no_fence_line (xs @ ys) \<Longrightarrow> no_fence_line ys"
proof (induction xs)
  case Nil
  then show ?case by simp
next
  case (Cons x xs)
  then show ?case by (cases "xs @ ys") auto
qed

lemma no_backquote_no_opening:
  assumes "CHR 0x60 \<notin> set pre" and "i < length pre"
  shows "block_opening objectName (drop i (pre @ s)) = None"
proof -
  from assms(2) obtain c cs where d: "drop i (pre @ s) = c # cs" and c: "c = pre ! i"
    by (metis Cons_nth_drop_Suc length_append nth_append trans_less_add1)
  from assms c have "c \<noteq> CHR 0x60" by (metis nth_mem)
  moreover have "caseless (CHR 0x60)" by (simp add: caseless_def)
  ultimately have "canonicalize (CHR 0x60) \<noteq> canonicalize c" by (simp add: canonicalize_caseless)
  then have \<open>literal ''```json\<newline>'' (c # cs) = None\<close> by simp
  then have \<open>literal ''```json\<newline>'' (drop i (pre @ s)) = None\<close> unfolding d .
  then show ?thesis unfolding block_opening_def by simp
qed

section \<open>Sample runs\<close>

lemma sample_run:
  "ds \<noteq> [] \<Longrightarrow>
   createHighlightedImage exact (sample_world t) sample_path (Some (payload ds)) (Some dims) =
     (Some sample_output,
      (sample_world t)\<lparr>ticks := 1, directories := [''/srv/output''],
         files := [(sample_output, highlightedCanvas exact sample_image dims ds)]\<rparr>)"
  by (simp add: createHighlightedImage_def tryHighlight_def saveHighlighted_def ensureOutputDir_def
      toISOString_def sample_world_def sample_path_def sample_output_def payload_def
      path_join_def basename_def basename_ext_def extname_def Let_def)

lemma sample_extract_dimensions:
  "extractJsonObject sample_parse_dimensions response_none ''processed_dimensions'' =
     Inr \<lparr>processed_dimensions = Some \<lparr>image1 = None, image2 = Some sample_dims\<rparr>\<rparr>"
  "extractJsonObject sample_parse_dimensions response_one ''processed_dimensions'' =
     Inr \<lparr>processed_dimensions = Some \<lparr>image1 = None, image2 = Some sample_dims\<rparr>\<rparr>"
  "extractJsonObject sample_parse_dimensions response_missing ''processed_dimensions'' =
     Inr \<lparr>processed_dimensions = Some \<lparr>image1 = None, image2 = Some sample_dims\<rparr>\<rparr>"
proof -
  have "regex_match ''processed_dimensions'' response_none = Some dimensions_text"
    and "regex_match ''processed_dimensions'' response_one = Some dimensions_text"
    and "regex_match ''processed_dimensions'' response_missing = Some dimensions_text"
    by code_simp+
  then show
    "extractJsonObject sample_parse_dimensions response_none ''processed_dimensions'' =
       Inr \<lparr>processed_dimensions = Some \<lparr>image1 = None, image2 = Some sample_dims\<rparr>\<rparr>"
    "extractJsonObject sample_parse_dimensions response_one ''processed_dimensions'' =
       Inr \<lparr>processed_dimensions = Some \<lparr>image1 = None, image2 = Some sample_dims\<rparr>\<rparr>"
    "extractJsonObject sample_parse_dimensions response_missing ''processed_dimensions'' =
       Inr \<lparr>processed_dimensions = Some \<lparr>image1 = None, image2 = Some sample_dims\<rparr>\<rparr>"
    by (simp_all add: extractJsonObject_def sample_parse_dimensions_def)
qed

lemma sample_extract_differences:
  "extractJsonObject sample_parse_differences response_none ''differences'' = Inr (payload [])"
  "extractJsonObject sample_parse_differences response_one ''differences'' =
     Inr (payload [sample_difference\<lparr>location := [], description := []\<rparr>])"
  "extractJsonObject sample_parse_differences response_missing ''differences'' =
     Inl (Error ''Could not find differences JSON block in the response'')"
proof -
  have "regex_match ''differences'' response_none = Some no_differences_text"
    and "regex_match ''differences'' response_one = Some one_difference_text"
    and "regex_match ''differences'' response_missing = None"
    by code_simp+
  moreover have "one_difference_text \<noteq> no_differences_text"
    by (simp add: one_difference_text_def no_differences_text_def)
  ultimately show
    "extractJsonObject sample_parse_differences response_none ''differences'' = Inr (payload [])"
    "extractJsonObject sample_parse_differences response_one ''differences'' =
       Inr (payload [sample_difference\<lparr>location := [], description := []\<rparr>])"
    "extractJsonObject sample_parse_differences response_missing ''differences'' =
       Inl (Error ''Could not find differences JSON block in the response'')"
    by (simp_all add: extractJsonObject_def sample_parse_differences_def payload_def)
qed

lemma sample_comparison_none:
  "compareImages exact sample_parse_dimensions sample_parse_differences
     (sample_world response_none) ''a.png'' ''b.png'' =
   (Inr \<lparr>processedDimensions = \<lparr>processed_dimensions = Some \<lparr>image1 = None, image2 = Some sample_dims\<rparr>\<rparr>,
          comparison.differences = payload [],
          analysis = response_none,
          highlightedImagePath = None,
          timestamp = ''2025-03-01T10:20:30.456Z''\<rparr>,
    (sample_world response_none)\<lparr>ticks := 1\<rparr>)"
  by (simp add: compareImages_def sample_extract_dimensions sample_extract_differences
      createHighlightedImage_empty toISOString_def sample_world_def payload_def)


section \<open>The claims\<close>

text \<open>
  C1. Whenever \<open>createHighlightedImage\<close> returns a path, the rectangles stroked on the canvas
  written there are, in order, those of the differences that have a \<open>highlight_area\<close>
  \<open>{x1, y1, x2, y2}\<close>: with the scale factors \<open>sx\<close>, the true width over the claimed width,
  and \<open>sy\<close>, the true height over the claimed height, the corners are
  \<open>X1 = max(0, x1 * sx)\<close>, \<open>Y1 = max(0, y1 * sy)\<close>, \<open>X2 = min(trueWidth, x2 * sx)\<close> and
  \<open>Y2 = min(trueHeight, y2 * sy)\<close>, and the rectangle is drawn at \<open>(X1, Y1)\<close> with the
  width \<open>X2 - X1\<close> and the height \<open>Y2 - Y1\<close>.
\<close>

theorem scaled_coordinates:
  assumes "createHighlightedImage R w imagePath diffObj processedDims = (Some out, w')"
  shows "\<exists>d ds img dims cv.
           diffObj = Some d \<and> differences_payload.differences d = Some ds \<and>
           loadImage w imagePath = Inr img \<and> processedDims = Some dims \<and>
           files w' = (out, cv) # files w \<and>
           strokedRects (calls (getContext cv)) =
             map (\<lambda>a.
                    let sx = js_div R (num (image.width img)) (dimensions.width dims);
                        sy = js_div R (num (image.height img)) (dimensions.height dims);
                        X1 = Math_max (Fin 0) (js_mul R (x1 a) sx);
                        Y1 = Math_max (Fin 0) (js_mul R (y1 a) sy);
                        X2 = Math_min (num (image.width img)) (js_mul R (x2 a) sx);
                        Y2 = Math_min (num (image.height img)) (js_mul R (y2 a) sy)
                    in (X1, Y1, js_sub R X2 X1, js_sub R Y2 Y1))
                 (List.map_filter highlight_area ds)"
proof -
  from createHighlightedImage_Some [OF assms] obtain d ds img dims where
    d: "diffObj = Some d" "differences_payload.differences d = Some ds" and
    img: "loadImage w imagePath = Inr img" and p: "processedDims = Some dims" and
    f: "files w' = (out, highlightedCanvas R img dims ds) # files w"
    by blast
  have "strokedRects (calls (getContext (highlightedCanvas R img dims ds))) =
          map (\<lambda>a. rectOf R (scaledBox R img (scaleX R img dims) (scaleY R img dims) a))
              (List.map_filter highlight_area ds)"
    by (simp add: highlightedCanvas_calls forEach_strokedRects concat_map_option)
  then have "strokedRects (calls (getContext (highlightedCanvas R img dims ds))) =
          map (\<lambda>a.
                 let sx = js_div R (num (image.width img)) (dimensions.width dims);
                     sy = js_div R (num (image.height img)) (dimensions.height dims);
                     X1 = Math_max (Fin 0) (js_mul R (x1 a) sx);
                     Y1 = Math_max (Fin 0) (js_mul R (y1 a) sy);
                     X2 = Math_min (num (image.width img)) (js_mul R (x2 a) sx);
                     Y2 = Math_min (num (image.height img)) (js_mul R (y2 a) sy)
                 in (X1, Y1, js_sub R X2 X1, js_sub R Y2 Y1))
              (List.map_filter highlight_area ds)"
    by (simp add: rectOf_def scaledBox_def scaleX_def scaleY_def Let_def)
  with d img p f show ?thesis by blast
qed

theorem scaled_coordinates_witness:
  "createHighlightedImage exact (sample_world []) sample_path
     (Some (payload [sample_difference])) (Some sample_dims) =
     (Some sample_output,
      (sample_world [])\<lparr>ticks := 1, directories := [''/srv/output''],
         files := [(sample_output, highlightedCanvas exact sample_image sample_dims [sample_difference])]\<rparr>) \<and>
   strokedRects (calls (getContext (highlightedCanvas exact sample_image sample_dims [sample_difference]))) =
     [(Fin 100, Fin 100, Fin 200, Fin 100)]"
proof -
  have run: "createHighlightedImage exact (sample_world []) sample_path
     (Some (payload [sample_difference])) (Some sample_dims) =
     (Some sample_output,
      (sample_world [])\<lparr>ticks := 1, directories := [''/srv/output''],
         files := [(sample_output, highlightedCanvas exact sample_image sample_dims [sample_difference])]\<rparr>)"
    by (rule sample_run) simp
  from scaled_coordinates [OF run] obtain cv where
    "(sample_output, cv) = (sample_output, highlightedCanvas exact sample_image sample_dims [sample_difference])"
    and "strokedRects (calls (getContext cv)) = [(Fin 100, Fin 100, Fin 200, Fin 100)]"
    by (auto simp add: sample_world_def payload_def sample_image_def sample_dims_def sample_difference_def
        sample_area_def num_def exact_def Math_max_def Math_min_def map_filter_simps Let_def)
  with run show ?thesis by simp
qed

text \<open>
  C2, as the code has it. For a difference with a \<open>highlight_area\<close>, the scaled box is clamped
  on one side each: its corner \<open>(x1, y1)\<close> from below by 0 and its corner \<open>(x2, y2)\<close> from
  above by the true width and height, wherever these coordinates are numbers. The scaled
  box is ordered in \<open>x\<close> exactly when the scaled coordinates before clamping are ordered
  and meet the frame, that is when \<open>x1 * sx \<le> x2 * sx\<close>, \<open>x1 * sx \<le> trueWidth\<close> and
  \<open>0 \<le> x2 * sx\<close>; likewise in \<open>y\<close>. An ordered box lies within the frame with all four
  coordinates.
\<close>

theorem one_sided_clamping:
  "(x1 (scaledBox R img (scaleX R img dims) (scaleY R img dims) a) \<noteq> NaN \<longrightarrow>
      js_le (Fin 0) (x1 (scaledBox R img (scaleX R img dims) (scaleY R img dims) a))) \<and>
   (y1 (scaledBox R img (scaleX R img dims) (scaleY R img dims) a) \<noteq> NaN \<longrightarrow>
      js_le (Fin 0) (y1 (scaledBox R img (scaleX R img dims) (scaleY R img dims) a))) \<and>
   (x2 (scaledBox R img (scaleX R img dims) (scaleY R img dims) a) \<noteq> NaN \<longrightarrow>
      js_le (x2 (scaledBox R img (scaleX R img dims) (scaleY R img dims) a)) (num (image.width img))) \<and>
   (y2 (scaledBox R img (scaleX R img dims) (scaleY R img dims) a) \<noteq> NaN \<longrightarrow>
      js_le (y2 (scaledBox R img (scaleX R img dims) (scaleY R img dims) a)) (num (image.height img))) \<and>
   (js_le (x1 (scaledBox R img (scaleX R img dims) (scaleY R img dims) a))
          (x2 (scaledBox R img (scaleX R img dims) (scaleY R img dims) a)) \<longleftrightarrow>
      js_le (js_mul R (x1 a) (scaleX R img dims)) (js_mul R (x2 a) (scaleX R img dims)) \<and>
      js_le (js_mul R (x1 a) (scaleX R img dims)) (num (image.width img)) \<and>
      js_le (Fin 0) (js_mul R (x2 a) (scaleX R img dims))) \<and>
   (js_le (y1 (scaledBox R img (scaleX R img dims) (scaleY R img dims) a))
          (y2 (scaledBox R img (scaleX R img dims) (scaleY R img dims) a)) \<longleftrightarrow>
      js_le (js_mul R (y1 a) (scaleY R img dims)) (js_mul R (y2 a) (scaleY R img dims)) \<and>
      js_le (js_mul R (y1 a) (scaleY R img dims)) (num (image.height img)) \<and>
      js_le (Fin 0) (js_mul R (y2 a) (scaleY R img dims))) \<and>
   (js_le (x1 (scaledBox R img (scaleX R img dims) (scaleY R img dims) a))
          (x2 (scaledBox R img (scaleX R img dims) (scaleY R img dims) a)) \<longrightarrow>
      js_le (x1 (scaledBox R img (scaleX R img dims) (scaleY R img dims) a)) (num (image.width img)) \<and>
      js_le (Fin 0) (x2 (scaledBox R img (scaleX R img dims) (scaleY R img dims) a))) \<and>
   (js_le (y1 (scaledBox R img (scaleX R img dims) (scaleY R img dims) a))
          (y2 (scaledBox R img (scaleX R img dims) (scaleY R img dims) a)) \<longrightarrow>
      js_le (y1 (scaledBox R img (scaleX R img dims) (scaleY R img dims) a)) (num (image.height img)) \<and>
      js_le (Fin 0) (y2 (scaledBox R img (scaleX R img dims) (scaleY R img dims) a)))"
proof -
  have w: "0 \<le> real (image.width img)" and h: "0 \<le> real (image.height img)" by simp_all
  note cx = clamped_within [OF w, of "js_mul R (x1 a) (scaleX R img dims)" "js_mul R (x2 a) (scaleX R img dims)"]
  note cy = clamped_within [OF h, of "js_mul R (y1 a) (scaleY R img dims)" "js_mul R (y2 a) (scaleY R img dims)"]
  show ?thesis
    using cx cy by (simp add: scaledBox_def num_def Math_max_lower Math_min_upper clamped_ordered)
qed

theorem one_sided_clamping_witness:
  "scaledBox exact sample_image (scaleX exact sample_image sample_dims) (scaleY exact sample_image sample_dims)
     sample_area = \<lparr>x1 = Fin 100, y1 = Fin 100, x2 = Fin 300, y2 = Fin 200\<rparr> \<and>
   js_le (Fin 0) (Fin 100) \<and> js_le (Fin 300) (num 800) \<and> js_le (Fin 200) (num 600) \<and>
   js_le (Fin 100) (Fin 300) \<and> js_le (Fin 100) (Fin 200)"
proof -
  have b: "scaledBox exact sample_image (scaleX exact sample_image sample_dims) (scaleY exact sample_image sample_dims)
     sample_area = \<lparr>x1 = Fin 100, y1 = Fin 100, x2 = Fin 300, y2 = Fin 200\<rparr>"
    by (simp add: scaledBox_def scaleX_def scaleY_def exact_def sample_image_def sample_dims_def
        sample_area_def num_def Math_max_def Math_min_def)
  have m: "js_mul exact (x1 sample_area) (scaleX exact sample_image sample_dims) = Fin 100"
    "js_mul exact (x2 sample_area) (scaleX exact sample_image sample_dims) = Fin 300"
    "js_mul exact (y1 sample_area) (scaleY exact sample_image sample_dims) = Fin 100"
    "js_mul exact (y2 sample_area) (scaleY exact sample_image sample_dims) = Fin 200"
    by (simp_all add: scaleX_def scaleY_def exact_def sample_image_def sample_dims_def sample_area_def num_def)
  from one_sided_clamping [of exact sample_image sample_dims sample_area] show ?thesis
    unfolding b m by (simp add: sample_image_def)
qed

text \<open>
  The statement of the specification fails for a box to the right of the claimed frame: its left edge,
  scaled to 900, is not clamped to the true width 800, to which its right edge is clamped,
  so that the scaled box is neither ordered nor within the frame.
\<close>

theorem one_sided_clamping_counterexample:
  "scaledBox exact sample_image (scaleX exact sample_image sample_dims) (scaleY exact sample_image sample_dims)
     outside_area = \<lparr>x1 = Fin 900, y1 = Fin 100, x2 = Fin 800, y2 = Fin 200\<rparr> \<and>
   \<not> js_le (Fin 900) (Fin 800) \<and> \<not> js_le (Fin 900) (num (image.width sample_image))"
  by (simp add: scaledBox_def scaleX_def scaleY_def exact_def sample_image_def sample_dims_def
      outside_area_def num_def Math_max_def Math_min_def)

text \<open>
  C3, as the code has it. A claimed width or height of zero signals no error, and the
  division is carried out: the scale factor is an infinity, whose sign is that of the zero,
  or \<open>NaN\<close> when the true dimension is zero as well. Whatever the claimed dimensions are,
  zero included, \<open>createHighlightedImage\<close> draws and writes the canvas and returns its path
  whenever there is a difference, the image is decoded and the output directory and file
  can be written.
\<close>

theorem zero_dimensions:
  assumes "loadImage w imagePath = Inr img"
    and "ds \<noteq> []"
    and "mkdirSync w (path_join (cwd w) ''output'') = None"
    and "\<forall>p. writeFile w p = None"
  shows "(dimensions.width dims = Fin 0 \<longrightarrow> scaleX R img dims \<in> {NaN, NegInf, PosInf}) \<and>
         (dimensions.height dims = Fin 0 \<longrightarrow> scaleY R img dims \<in> {NaN, NegInf, PosInf}) \<and>
         (\<exists>out w'. createHighlightedImage R w imagePath (Some (payload ds)) (Some dims) = (Some out, w') \<and>
                    files w' = (out, highlightedCanvas R img dims ds) # files w)"
proof -
  have "\<exists>out w'. createHighlightedImage R w imagePath (Some (payload ds)) (Some dims) = (Some out, w') \<and>
                  files w' = (out, highlightedCanvas R img dims ds) # files w"
    using assms
    by (simp add: createHighlightedImage_def tryHighlight_def saveHighlighted_def ensureOutputDir_def
        toISOString_def payload_def Let_def)
  then show ?thesis
    by (simp add: scaleX_def scaleY_def js_div_zero)
qed

theorem zero_dimensions_witness:
  "loadImage (sample_world []) sample_path = Inr sample_image \<and>
   mkdirSync (sample_world []) (path_join (cwd (sample_world [])) ''output'') = None \<and>
   (\<forall>p. writeFile (sample_world []) p = None) \<and>
   dimensions.width zero_dims = Fin 0 \<and> dimensions.height zero_dims = Fin 0 \<and>
   scaleX exact sample_image zero_dims = PosInf \<and> scaleY exact sample_image zero_dims = PosInf \<and>
   (\<exists>out w'. createHighlightedImage exact (sample_world []) sample_path
                (Some (payload [sample_difference])) (Some zero_dims) = (Some out, w') \<and>
              files w' = (out, highlightedCanvas exact sample_image zero_dims [sample_difference]) #
                         files (sample_world []))"
proof -
  have h: "loadImage (sample_world []) sample_path = Inr sample_image"
    "[sample_difference] \<noteq> []"
    "mkdirSync (sample_world []) (path_join (cwd (sample_world [])) ''output'') = None"
    "\<forall>p. writeFile (sample_world []) p = None"
    by (simp_all add: sample_world_def)
  have z: "dimensions.width zero_dims = Fin 0" "dimensions.height zero_dims = Fin 0"
    "image.width sample_image \<noteq> 0" "image.height sample_image \<noteq> 0"
    by (simp_all add: zero_dims_def sample_image_def)
  have s: "scaleX exact sample_image zero_dims = PosInf" "scaleY exact sample_image zero_dims = PosInf"
    by (simp_all add: scaleX_def scaleY_def sample_image_def zero_dims_def num_def infinity_def)
  from zero_dimensions [OF h, of zero_dims exact] h z s show ?thesis by simp
qed

text \<open>
  The statement of the specification fails: with claimed dimensions zero the scale factors are computed,
  infinite, and the image is rendered with an infinite rectangle, written and its path
  returned.
\<close>

theorem zero_dimensions_counterexample:
  "dimensions.width zero_dims = Fin 0 \<and> dimensions.height zero_dims = Fin 0 \<and>
   scaleX exact sample_image zero_dims = PosInf \<and> scaleY exact sample_image zero_dims = PosInf \<and>
   createHighlightedImage exact (sample_world []) sample_path
     (Some (payload [sample_difference])) (Some zero_dims) =
     (Some sample_output,
      (sample_world [])\<lparr>ticks := 1, directories := [''/srv/output''],
         files := [(sample_output, highlightedCanvas exact sample_image zero_dims [sample_difference])]\<rparr>) \<and>
   strokedRects (calls (getContext (highlightedCanvas exact sample_image zero_dims [sample_difference]))) =
     [(PosInf, PosInf, NegInf, NegInf)]"
proof -
  have "strokedRects (calls (getContext (highlightedCanvas exact sample_image zero_dims [sample_difference]))) =
     [(PosInf, PosInf, NegInf, NegInf)]"
    unfolding highlightedCanvas_calls forEach_strokedRects
    by (simp add: rectOf_def scaledBox_def scaleX_def scaleY_def
        sample_difference_def sample_area_def sample_image_def zero_dims_def num_def infinity_def
        Math_max_def Math_min_def)
  moreover have "createHighlightedImage exact (sample_world []) sample_path
     (Some (payload [sample_difference])) (Some zero_dims) =
     (Some sample_output,
      (sample_world [])\<lparr>ticks := 1, directories := [''/srv/output''],
         files := [(sample_output, highlightedCanvas exact sample_image zero_dims [sample_difference])]\<rparr>)"
    by (rule sample_run) simp
  ultimately show ?thesis
    by (simp add: scaleX_def scaleY_def sample_image_def zero_dims_def num_def infinity_def)
qed

text \<open>
  C4, as the code has it. Let a text hold a fenced block for one of the two object names:
  the fence with its tag, a newline, the serialised object, a newline and the closing
  fence, where the object starts with a brace, white space and the quoted name, ends with
  a brace and has no line that begins with a backquote. If no block for that name is
  opened in the prose before it (no fence followed by a brace and the quoted name, closed
  or not), then extraction returns what \<open>JSON.parse\<close> makes of the object: the value that
  was serialised. The prose after the block is arbitrary, so that among several blocks for
  a name the first is used.
\<close>

theorem round_trip:
  assumes \<open>objectName = ''processed_dimensions'' \<or> objectName = ''differences''\<close>
    and \<open>map canonicalize fence = map canonicalize ''```json\<newline>''\<close>
    and \<open>body = ''{'' @ ws @ key @ tail @ ''}''\<close>
    and \<open>\<forall>c \<in> set ws. is_space c\<close>
    and \<open>map canonicalize key = map canonicalize (''"'' @ objectName @ ''"'')\<close>
    and \<open>no_fence_line body\<close>
    and \<open>\<forall>i<length pre. block_opening objectName (drop i (pre @ fence @ body @ ''\<newline>```'' @ post)) = None\<close>
    and \<open>JSON_parse body = Inr v\<close>
  shows \<open>extractJsonObject JSON_parse (pre @ fence @ body @ ''\<newline>```'' @ post) objectName = Inr v\<close>
proof -
  let ?s = \<open>fence @ ''{'' @ ws @ key @ tail @ ''}\<newline>```'' @ post\<close>
  have eq: \<open>pre @ fence @ body @ ''\<newline>```'' @ post = pre @ ?s\<close>
    by (simp add: assms(3))
  have \<open>no_fence_line ((''{'' @ ws @ key @ tail) @ ''}'')\<close>
    using assms(6) by (simp add: assms(3))
  then have \<open>no_fence_line (tail @ ''}'')\<close>
    using no_fence_line_suffix [of \<open>''{'' @ ws @ key\<close> \<open>tail @ ''}''\<close>] by simp
  then have l: \<open>lazy_until ''}\<newline>```'' (tail @ ''}\<newline>```'' @ post) = Some (tail, post)\<close>
    by (rule closing_in_body)
  have o: \<open>block_opening objectName ?s = Some (''{'' @ ws @ key, tail @ ''}\<newline>```'' @ post)\<close>
    by (rule block_opening_at [OF assms(2) assms(4) assms(5)])
  have \<open>match_here objectName ?s = Some ((''{'' @ ws @ key) @ tail @ ''}'')\<close>
    unfolding match_here_def o option.case prod.case l by simp
  then have m: \<open>match_here objectName ?s = Some body\<close>
    by (simp add: assms(3))
  have \<open>\<forall>i<length pre. match_here objectName (drop i (pre @ ?s)) = None\<close>
    using assms(7) unfolding eq by (simp add: match_here_def)
  from regex_match_skip [OF this] regex_match_here [OF m]
  have \<open>regex_match objectName (pre @ ?s) = Some body\<close> by simp
  then show ?thesis
    unfolding eq by (simp add: extractJsonObject_def assms(8))
qed

theorem round_trip_witness:
  \<open>map canonicalize ''```JSON\<newline>'' = map canonicalize ''```json\<newline>'' \<and>
   no_differences_text = ''{'' @ [] @ ''"differences"'' @ '': []'' @ ''}'' \<and>
   map canonicalize ''"differences"'' = map canonicalize (''"'' @ ''differences'' @ ''"'') \<and>
   no_fence_line no_differences_text \<and>
   CHR 0x60 \<notin> set ''No change: '' \<and>
   sample_parse_differences no_differences_text = Inr (payload []) \<and>
   extractJsonObject sample_parse_differences
     (''No change: '' @ ''```JSON\<newline>'' @ no_differences_text @ ''\<newline>```'' @ '' End.'') ''differences'' =
     Inr (payload [])\<close>
proof -
  have 1: \<open>''differences'' = ''processed_dimensions'' \<or> ''differences'' = ''differences''\<close> by simp
  have 2: \<open>map canonicalize ''```JSON\<newline>'' = map canonicalize ''```json\<newline>''\<close>
    by (simp add: canonicalize_def)
  have 3: \<open>no_differences_text = ''{'' @ [] @ ''"differences"'' @ '': []'' @ ''}''\<close>
    by (simp add: no_differences_text_def)
  have 4: \<open>\<forall>c \<in> set []. is_space c\<close> by simp
  have 5: \<open>map canonicalize ''"differences"'' = map canonicalize (''"'' @ ''differences'' @ ''"'')\<close> by simp
  have 6: \<open>no_fence_line no_differences_text\<close> by (simp add: no_differences_text_def)
  have b: \<open>CHR 0x60 \<notin> set ''No change: ''\<close> by simp
  have 7: \<open>\<forall>i<length ''No change: ''. block_opening ''differences''
              (drop i (''No change: '' @ ''```JSON\<newline>'' @ no_differences_text @ ''\<newline>```'' @ '' End.'')) = None\<close>
    using no_backquote_no_opening [OF b] by blast
  have 8: \<open>sample_parse_differences no_differences_text = Inr (payload [])\<close>
    by (simp add: sample_parse_differences_def payload_def)
  from round_trip [where objectName = \<open>''differences''\<close> and fence = \<open>''```JSON\<newline>''\<close>
      and body = no_differences_text and ws = \<open>[]\<close> and key = \<open>''"differences"''\<close>
      and tail = \<open>'': []''\<close> and pre = \<open>''No change: ''\<close> and post = \<open>'' End.''\<close>
      and JSON_parse = sample_parse_differences and v = \<open>payload []\<close>, OF 1 2 3 4 5 6 7 8]
    2 3 5 6 b 8
  show ?thesis by blast
qed

text \<open>
  The statement of the specification fails for prose that opens a block for the name and does not close
  it: the match then runs from that opening to the end of the block proper, and the text
  matched is not JSON.
\<close>

theorem round_trip_counterexample:
  \<open>response_unclosed =
     ''```json\<newline>{"differences" comes next.\<newline>'' @ ''```json\<newline>'' @ no_differences_text @ ''\<newline>```'' @ [] \<and>
   sample_parse_differences no_differences_text = Inr (payload []) \<and>
   regex_match ''differences'' response_unclosed =
     Some (''{"differences" comes next.\<newline>```json\<newline>'' @ no_differences_text) \<and>
   extractJsonObject sample_parse_differences response_unclosed ''differences'' =
     Inl (SyntaxError ''Unexpected token'')\<close>
proof -
  have r: \<open>regex_match ''differences'' response_unclosed =
     Some (''{"differences" comes next.\<newline>```json\<newline>'' @ no_differences_text)\<close>
    by code_simp
  then show ?thesis
    by (simp add: extractJsonObject_def) 
       (simp add: sample_parse_differences_def payload_def response_unclosed_def
         no_differences_text_def one_difference_text_def)
qed




text \<open>
  C6. When the extracted list of differences is empty, the comparison returns a result whose
  \<open>highlightedImagePath\<close> is null and leaves the file system as it was: nothing is rendered
  and nothing is written. The world afterwards differs from the one before in the reading
  of the clock only, whatever the decoder or the file system would have done.
\<close>

theorem empty_differences:
  assumes "compareImages R parse_dimensions parse_differences w image1Path image2Path = (Inr r, w')"
    and "differences_payload.differences (comparison.differences r) = Some []"
  shows "highlightedImagePath r = None \<and> files w' = files w \<and> directories w' = directories w \<and>
         w' = w\<lparr>ticks := Suc (ticks w)\<rparr>"
  using assms
  by (auto simp add: compareImages_def toISOString_def createHighlightedImage_empty
      split: if_splits sum.splits option.splits prod.splits)

theorem empty_differences_witness:
  "compareImages exact sample_parse_dimensions sample_parse_differences
     (sample_world response_none) ''a.png'' ''b.png'' =
   (Inr \<lparr>processedDimensions = \<lparr>processed_dimensions = Some \<lparr>image1 = None, image2 = Some sample_dims\<rparr>\<rparr>,
          comparison.differences = payload [],
          analysis = response_none,
          highlightedImagePath = None,
          timestamp = ''2025-03-01T10:20:30.456Z''\<rparr>,
    (sample_world response_none)\<lparr>ticks := 1\<rparr>) \<and>
   differences_payload.differences (payload []) = Some [] \<and>
   files ((sample_world response_none)\<lparr>ticks := 1\<rparr>) = files (sample_world response_none)"
proof -
  have d: "differences_payload.differences
             (comparison.differences
                \<lparr>processedDimensions = \<lparr>processed_dimensions = Some \<lparr>image1 = None, image2 = Some sample_dims\<rparr>\<rparr>,
                 comparison.differences = payload [],
                 analysis = response_none,
                 highlightedImagePath = None,
                 timestamp = ''2025-03-01T10:20:30.456Z''\<rparr>) = Some []"
    by (simp add: payload_def)
  from empty_differences [OF sample_comparison_none d] sample_comparison_none show ?thesis
    by (simp add: payload_def)
qed






text \<open>
  C9. Whenever \<open>createHighlightedImage\<close> returns a path, the canvas written there is as wide
  as the source image and 40 pixels higher. Its first three calls are the copy of the
  source, which enters as it was decoded, the background of the legend band below the
  image, and the legend text, which counts every difference of the list, with or without
  a \<open>highlight_area\<close>. The image is only read: every call is drawn on a canvas made for it.
\<close>

theorem legend_band:
  assumes "createHighlightedImage R w imagePath diffObj processedDims = (Some out, w')"
  shows "\<exists>d ds img cv rest.
           diffObj = Some d \<and> differences_payload.differences d = Some ds \<and>
           loadImage w imagePath = Inr img \<and> files w' = (out, cv) # files w \<and>
           canvas.width cv = image.width img \<and>
           canvas.height cv = image.height img + 40 \<and>
           calls (getContext cv) =
             [DrawCanvas (image.width img) (image.height img)
                [DrawImage img (Fin 0) (Fin 0) (num (image.width img)) (num (image.height img))]
                (Fin 0) (Fin 0),
              FillRect ''rgba(255, 255, 255, 0.9)'' (Fin 0) (num (image.height img))
                (num (image.width img)) (num 40),
              FillText ''14px Arial'' ''black'' (decimal (length ds) @ '' UI differences detected'')
                (num 20) (num (image.height img + 25))] @ rest"
proof -
  from createHighlightedImage_Some [OF assms] obtain d ds img dims where
    d: "diffObj = Some d" "differences_payload.differences d = Some ds" and
    img: "loadImage w imagePath = Inr img" and
    f: "files w' = (out, highlightedCanvas R img dims ds) # files w"
    by blast
  from forEach_appends [of R img "scaleX R img dims" "scaleY R img dims" ds 0
      "\<lparr>fillStyle = ''black'', strokeStyle = ''#000000'', font = ''bold 12px Arial'', lineWidth = Fin 3,
        calls = [DrawCanvas (image.width img) (image.height img)
                   [DrawImage img (Fin 0) (Fin 0) (num (image.width img)) (num (image.height img))] (Fin 0) (Fin 0),
                 FillRect ''rgba(255, 255, 255, 0.9)'' (Fin 0) (num (image.height img)) (num (image.width img)) (num 40),
                 FillText ''14px Arial'' ''black'' (decimal (length ds) @ '' UI differences detected'')
                   (num 20) (num (image.height img + 25))]\<rparr>"]
  obtain rest where
    "calls (getContext (highlightedCanvas R img dims ds)) =
       [DrawCanvas (image.width img) (image.height img)
          [DrawImage img (Fin 0) (Fin 0) (num (image.width img)) (num (image.height img))]
          (Fin 0) (Fin 0),
        FillRect ''rgba(255, 255, 255, 0.9)'' (Fin 0) (num (image.height img))
          (num (image.width img)) (num 40),
        FillText ''14px Arial'' ''black'' (decimal (length ds) @ '' UI differences detected'')
          (num 20) (num (image.height img + 25))] @ rest"
    by (auto simp add: highlightedCanvas_calls)
  with d img f highlightedCanvas_size [of R img dims ds] show ?thesis by blast
qed

theorem legend_band_witness:
  "createHighlightedImage exact (sample_world []) sample_path
     (Some (payload [plain_difference, sample_difference])) (Some sample_dims) =
     (Some sample_output,
      (sample_world [])\<lparr>ticks := 1, directories := [''/srv/output''],
         files := [(sample_output,
                    highlightedCanvas exact sample_image sample_dims [plain_difference, sample_difference])]\<rparr>) \<and>
   canvas.width (highlightedCanvas exact sample_image sample_dims [plain_difference, sample_difference]) = 800 \<and>
   canvas.height (highlightedCanvas exact sample_image sample_dims [plain_difference, sample_difference]) = 640 \<and>
   take 3 (calls (getContext (highlightedCanvas exact sample_image sample_dims [plain_difference, sample_difference]))) =
     [DrawCanvas 800 600 [DrawImage sample_image (Fin 0) (Fin 0) (Fin 800) (Fin 600)] (Fin 0) (Fin 0),
      FillRect ''rgba(255, 255, 255, 0.9)'' (Fin 0) (Fin 600) (Fin 800) (Fin 40),
      FillText ''14px Arial'' ''black'' ''2 UI differences detected'' (Fin 20) (Fin 625)]"
proof -
  have run: "createHighlightedImage exact (sample_world []) sample_path
     (Some (payload [plain_difference, sample_difference])) (Some sample_dims) =
     (Some sample_output,
      (sample_world [])\<lparr>ticks := 1, directories := [''/srv/output''],
         files := [(sample_output,
                    highlightedCanvas exact sample_image sample_dims [plain_difference, sample_difference])]\<rparr>)"
    by (rule sample_run) simp
  have two: "decimal (Suc (Suc 0)) = ''2''" by code_simp
  from legend_band [OF run] obtain cv rest where
    "(sample_output, cv) = (sample_output,
        highlightedCanvas exact sample_image sample_dims [plain_difference, sample_difference])"
    and "canvas.width cv = 800" and "canvas.height cv = 640" and
    "calls (getContext cv) =
       [DrawCanvas 800 600 [DrawImage sample_image (Fin 0) (Fin 0) (Fin 800) (Fin 600)] (Fin 0) (Fin 0),
        FillRect ''rgba(255, 255, 255, 0.9)'' (Fin 0) (Fin 600) (Fin 800) (Fin 40),
        FillText ''14px Arial'' ''black'' ''2 UI differences detected'' (Fin 20) (Fin 625)] @ rest"
    by (auto simp add: sample_world_def payload_def sample_image_def num_def two)
  with run show ?thesis by simp
qed

text \<open>
  C10, as the code has it. When the claimed dimensions equal the true dimensions of the
  image, which are not zero, both scale factors are 1, and each scaled coordinate of a
  \<open>highlight_area\<close> equals the coordinate exactly where it is within its clamp, that is
  where \<open>0 \<le> x1\<close>, \<open>0 \<le> y1\<close>, \<open>x2 \<le> trueWidth\<close>, \<open>y2 \<le> trueHeight\<close>, and is the clamp
  where it goes beyond: 0 for \<open>x1 < 0\<close> and for \<open>y1 < 0\<close>, the true width for
  \<open>trueWidth < x2\<close> and the true height for \<open>trueHeight < y2\<close>. So the scaled box equals
  the area when all four coordinates are within their clamps. The rounding is any that
  leaves 1 and the four coordinates, which are numbers read from JSON, as they are.
\<close>

theorem scale_invariance:
  assumes "dimensions.width dims = num (image.width img)"
    and "dimensions.height dims = num (image.height img)"
    and "0 < image.width img" and "0 < image.height img"
    and "representable R (Fin 1)"
    and "representable R (x1 a)" and "representable R (y1 a)"
    and "representable R (x2 a)" and "representable R (y2 a)"
  shows "scaleX R img dims = Fin 1 \<and> scaleY R img dims = Fin 1 \<and>
         (js_le (Fin 0) (x1 a) \<longrightarrow>
            x1 (scaledBox R img (scaleX R img dims) (scaleY R img dims) a) = x1 a) \<and>
         (js_less (x1 a) (Fin 0) \<longrightarrow>
            x1 (scaledBox R img (scaleX R img dims) (scaleY R img dims) a) = Fin 0) \<and>
         (js_le (Fin 0) (y1 a) \<longrightarrow>
            y1 (scaledBox R img (scaleX R img dims) (scaleY R img dims) a) = y1 a) \<and>
         (js_less (y1 a) (Fin 0) \<longrightarrow>
            y1 (scaledBox R img (scaleX R img dims) (scaleY R img dims) a) = Fin 0) \<and>
         (js_le (x2 a) (num (image.width img)) \<longrightarrow>
            x2 (scaledBox R img (scaleX R img dims) (scaleY R img dims) a) = x2 a) \<and>
         (js_less (num (image.width img)) (x2 a) \<longrightarrow>
            x2 (scaledBox R img (scaleX R img dims) (scaleY R img dims) a) = num (image.width img)) \<and>
         (js_le (y2 a) (num (image.height img)) \<longrightarrow>
            y2 (scaledBox R img (scaleX R img dims) (scaleY R img dims) a) = y2 a) \<and>
         (js_less (num (image.height img)) (y2 a) \<longrightarrow>
            y2 (scaledBox R img (scaleX R img dims) (scaleY R img dims) a) = num (image.height img)) \<and>
         (js_le (Fin 0) (x1 a) \<and> js_le (Fin 0) (y1 a) \<and>
          js_le (x2 a) (num (image.width img)) \<and> js_le (y2 a) (num (image.height img)) \<longrightarrow>
            scaledBox R img (scaleX R img dims) (scaleY R img dims) a = a)"
proof -
  have sx: "scaleX R img dims = Fin 1" and sy: "scaleY R img dims = Fin 1"
    using assms(1-5) by (simp_all add: scaleX_def scaleY_def js_div_self)
  have lo: "js_less x (Fin 0) \<Longrightarrow> Math_max (Fin 0) x = Fin 0" for x
    by (cases x) (auto simp add: Math_max_def)
  have hi: "js_less (Fin u) x \<Longrightarrow> Math_min (Fin u) x = Fin u" for u x
    by (cases x) (auto simp add: Math_min_def)
  have b: "scaledBox R img (Fin 1) (Fin 1) a =
             \<lparr>x1 = Math_max (Fin 0) (x1 a), y1 = Math_max (Fin 0) (y1 a),
              x2 = Math_min (num (image.width img)) (x2 a),
              y2 = Math_min (num (image.height img)) (y2 a)\<rparr>"
    using assms(6-9) by (simp add: scaledBox_def js_mul_one)
  show ?thesis
    unfolding sx sy b by (simp add: num_def Math_max_id Math_min_id lo hi)
qed

theorem scale_invariance_witness:
  "dimensions.width true_dims = num (image.width sample_image) \<and>
   dimensions.height true_dims = num (image.height sample_image) \<and>
   0 < image.width sample_image \<and> 0 < image.height sample_image \<and>
   representable exact (Fin 1) \<and>
   representable exact (x1 sample_area) \<and> representable exact (y1 sample_area) \<and>
   representable exact (x2 sample_area) \<and> representable exact (y2 sample_area) \<and>
   js_le (Fin 0) (x1 sample_area) \<and> js_le (Fin 0) (y1 sample_area) \<and>
   js_le (x2 sample_area) (num (image.width sample_image)) \<and>
   js_le (y2 sample_area) (num (image.height sample_image)) \<and>
   scaleX exact sample_image true_dims = Fin 1 \<and> scaleY exact sample_image true_dims = Fin 1 \<and>
   scaledBox exact sample_image (scaleX exact sample_image true_dims) (scaleY exact sample_image true_dims)
     sample_area = sample_area \<and>
   representable exact (x1 exceeding_area) \<and> representable exact (y1 exceeding_area) \<and>
   representable exact (x2 exceeding_area) \<and> representable exact (y2 exceeding_area) \<and>
   js_less (x1 exceeding_area) (Fin 0) \<and> js_less (y1 exceeding_area) (Fin 0) \<and>
   js_less (num (image.width sample_image)) (x2 exceeding_area) \<and>
   js_less (num (image.height sample_image)) (y2 exceeding_area) \<and>
   x1 (scaledBox exact sample_image (scaleX exact sample_image true_dims) (scaleY exact sample_image true_dims)
         exceeding_area) = Fin 0 \<and>
   y1 (scaledBox exact sample_image (scaleX exact sample_image true_dims) (scaleY exact sample_image true_dims)
         exceeding_area) = Fin 0 \<and>
   x2 (scaledBox exact sample_image (scaleX exact sample_image true_dims) (scaleY exact sample_image true_dims)
         exceeding_area) = num (image.width sample_image) \<and>
   y2 (scaledBox exact sample_image (scaleX exact sample_image true_dims) (scaleY exact sample_image true_dims)
         exceeding_area) = num (image.height sample_image)"
proof -
  have h: "dimensions.width true_dims = num (image.width sample_image)"
    "dimensions.height true_dims = num (image.height sample_image)"
    "0 < image.width sample_image" "0 < image.height sample_image"
    "representable exact (Fin 1)"
    by (simp_all add: true_dims_def sample_image_def num_def representable_def exact_def)
  have r: "representable exact (x1 sample_area)" "representable exact (y1 sample_area)"
    "representable exact (x2 sample_area)" "representable exact (y2 sample_area)"
    by (simp_all add: sample_area_def representable_def exact_def)
  have i: "js_le (Fin 0) (x1 sample_area)" "js_le (Fin 0) (y1 sample_area)"
    "js_le (x2 sample_area) (num (image.width sample_image))"
    "js_le (y2 sample_area) (num (image.height sample_image))"
    by (simp_all add: sample_image_def sample_area_def num_def)
  have r': "representable exact (x1 exceeding_area)" "representable exact (y1 exceeding_area)"
    "representable exact (x2 exceeding_area)" "representable exact (y2 exceeding_area)"
    by (simp_all add: exceeding_area_def representable_def exact_def)
  have o: "js_less (x1 exceeding_area) (Fin 0)" "js_less (y1 exceeding_area) (Fin 0)"
    "js_less (num (image.width sample_image)) (x2 exceeding_area)"
    "js_less (num (image.height sample_image)) (y2 exceeding_area)"
    by (simp_all add: sample_image_def exceeding_area_def num_def)
  note inside = scale_invariance [OF h r]
  note beyond = scale_invariance [OF h r']
  from inside beyond h r i r' o show ?thesis by blast
qed

text \<open>
  The statement of the specification fails for a box that starts left of the frame: with
  equal claimed and true dimensions its \<open>x1 = -10\<close> is clamped to 0.
\<close>

theorem scale_invariance_counterexample:
  "dimensions.width true_dims = num (image.width sample_image) \<and>
   dimensions.height true_dims = num (image.height sample_image) \<and>
   scaleX exact sample_image true_dims = Fin 1 \<and> scaleY exact sample_image true_dims = Fin 1 \<and>
   x1 overhanging_area = Fin (- 10) \<and>
   x1 (scaledBox exact sample_image (scaleX exact sample_image true_dims) (scaleY exact sample_image true_dims)
         overhanging_area) = Fin 0 \<and>
   scaledBox exact sample_image (scaleX exact sample_image true_dims) (scaleY exact sample_image true_dims)
     overhanging_area \<noteq> overhanging_area"
  by (simp add: scaledBox_def scaleX_def scaleY_def exact_def sample_image_def true_dims_def
      overhanging_area_def num_def Math_max_def Math_min_def)

end
